theory Spec2Isabelle
  imports Complex_Main
begin

section \<open>Sensor node firmware (main.py): data model\<close>

text \<open>
  The firmware is one MicroPython script. Its collaborators (the socket module, the
  MQTT client, the watchdog timer, the DHT20 driver, the ADC, the clock and the
  configuration module) are not part of the repository: every call into them is a
  parameter of the model, giving the outcome of that call, and every call the script
  makes is recorded as an event of a trace. Console output (\<open>print\<close>, \<open>log\<close>) is not
  part of the trace. The name \<open>machine\<close> is taken to be bound in the global namespace
  when the script runs.
\<close>

text \<open>
  The exception classes the handlers of the script tell apart. \<open>except OSError\<close>
  catches \<open>OSError\<close> only, \<open>except Exception\<close> catches \<open>OSError\<close> and every other
  subclass of \<open>Exception\<close> (\<open>OtherException\<close>), a bare \<open>except:\<close> catches all three;
  \<open>SystemExit\<close>, raised by \<open>sys.exit()\<close>, is not a subclass of \<open>Exception\<close>.
\<close>

datatype exn = OSError | OtherException | SystemExit

fun is_Exception :: "exn \<Rightarrow> bool" where
  "is_Exception OSError = True"
| "is_Exception OtherException = True"
| "is_Exception SystemExit = False"

text \<open>The outcome of a call into a collaborator: \<open>None\<close> when it returns, \<open>Some e\<close> when it raises.\<close>

type_synonym outcome = "exn option"

text \<open>The result of the link probe as the specification names it.\<close>

datatype health = Reachable | Unreachable

text \<open>
  The calls the script makes, in the order it makes them. \<open>EProbe\<close> is the probe of
  \<open>watchdog_task\<close> (\<open>getaddrinfo\<close>, \<open>socket\<close>, \<open>connect\<close>, \<open>close\<close>, lines 63 to 66), recorded
  with its result; \<open>EPublish topic m\<close> is the call \<open>mqtt_client.publish(topic, m)\<close>, whether
  it returns or raises; \<open>EExit\<close> is \<open>sys.exit()\<close>; \<open>EReset\<close> is \<open>machine.reset()\<close>.
\<close>

datatype event =
    EArm nat
  | EConnect
  | ESensorInit
  | ESensorRead
  | EPublish string string
  | ESleep
  | EProbe health
  | EFeed
  | EExit
  | EDisconnect
  | EReset

text \<open>A statement yields the events it made and the exception it raised, if any.\<close>

type_synonym stmt = "event list \<times> exn option"

text \<open>Sequential composition: the second statement runs only if the first did not raise.\<close>

fun seq :: "stmt \<Rightarrow> stmt \<Rightarrow> stmt" where
  "seq (es, Some e) _ = (es, Some e)"
| "seq (es, None) (es', r) = (es @ es', r)"

section \<open>The link probe and the wait loop\<close>

text \<open>
  \<open>watchdog_task\<close> (lines 56 to 74). The parameter is the outcome of the probe in the
  \<open>try\<close> body. When the probe returns, the watchdog is fed (line 69); an \<open>OSError\<close> is
  caught by the handler of line 72; any other exception leaves the function.
\<close>

definition probe_health :: "outcome \<Rightarrow> health" where
  "probe_health p = (case p of None \<Rightarrow> Reachable | Some _ \<Rightarrow> Unreachable)"

definition watchdog_task :: "outcome \<Rightarrow> stmt" where
  "watchdog_task p =
     (case p of
        None \<Rightarrow> ([EProbe Reachable, EFeed], None)
      | Some e \<Rightarrow> (if e = OSError then ([EProbe Unreachable], None)
                  else ([EProbe Unreachable], Some e)))"

text \<open>
  The wait loop (lines 204 to 216), started with \<open>interval = 0\<close>. It returns the events
  of each tick it ran, one list per tick, and the exception that ended it, if any.
  \<open>probes i\<close> is the outcome of the probe of tick \<open>i\<close>.
\<close>

function wait_loop :: "int \<Rightarrow> (nat \<Rightarrow> outcome) \<Rightarrow> int \<Rightarrow> event list list \<times> exn option" where
  "wait_loop N probes interval =
     (if interval < N then
        (case watchdog_task (probes (nat interval)) of
           (es, Some e) \<Rightarrow> ([ESleep # es], Some e)
         | (es, None) \<Rightarrow>
             (case wait_loop N probes (interval + 1) of
                (ticks, r) \<Rightarrow> ((ESleep # es) # ticks, r)))
      else ([], None))"
  by pat_completeness auto
termination
  by (relation "measure (\<lambda>(N, probes, interval). nat (N - interval))") auto

declare wait_loop.simps [simp del]

definition waiting :: "int \<Rightarrow> (nat \<Rightarrow> outcome) \<Rightarrow> stmt" where
  "waiting N probes = (case wait_loop N probes 0 of (ticks, r) \<Rightarrow> (concat ticks, r))"

text \<open>The probe outcomes the specification knows: the probe returns, or fails with an \<open>OSError\<close>.\<close>

definition outcome_of :: "health \<Rightarrow> outcome" where
  "outcome_of h = (case h of Reachable \<Rightarrow> None | Unreachable \<Rightarrow> Some OSError)"

section \<open>Rendering numbers\<close>

text \<open>\<open>str\<close> of a non-negative integer: its decimal digits.\<close>

definition digit_char :: "nat \<Rightarrow> char" where
  "digit_char d = ''0123456789'' ! d"

function str_nat :: "nat \<Rightarrow> string" where
  "str_nat n = (if n < 10 then [digit_char n] else str_nat (n div 10) @ [digit_char (n mod 10)])"
  by pat_completeness auto
termination
  by (relation "measure id") auto

declare str_nat.simps [simp del]

text \<open>\<open>str\<close> of a Python integer, and the format \<open>:02d\<close> (the sign counts in the width of two).\<close>

definition str_int :: "int \<Rightarrow> string" where
  "str_int i = (if i < 0 then CHR ''-'' # str_nat (nat (- i)) else str_nat (nat i))"

definition pad2 :: "int \<Rightarrow> string" where
  "pad2 i = (let s = str_int i in if length s < 2 then CHR ''0'' # s else s)"

text \<open>
  A finite Python float: its sign bit and its magnitude (so that negative zero is a
  value). Arithmetic on floats is modelled exactly, without the rounding error of the
  binary representation; infinities and NaN are left out.
\<close>

datatype pyfloat = PyFloat bool rat

definition float_of_rat :: "rat \<Rightarrow> pyfloat" where
  "float_of_rat q = PyFloat (q < 0) \<bar>q\<bar>"

text \<open>Rounding to the nearest integer, ties to the even one.\<close>

definition round_half_even :: "rat \<Rightarrow> int" where
  "round_half_even q =
     (let f = \<lfloor>q\<rfloor>; d = q - of_int f in
      if d < 1 / 2 then f
      else if 1 / 2 < d then f + 1
      else if even f then f else f + 1)"

text \<open>The number of tenths nearest to the magnitude of a float.\<close>

fun tenths :: "pyfloat \<Rightarrow> nat" where
  "tenths (PyFloat s m) = nat (round_half_even (\<bar>m\<bar> * 10))"

text \<open>\<open>round(x, 1)\<close>.\<close>

fun py_round1 :: "pyfloat \<Rightarrow> pyfloat" where
  "py_round1 (PyFloat s m) = PyFloat s (of_nat (tenths (PyFloat s m)) / 10)"

text \<open>
  The format \<open>:.1f\<close>: the sign, the integer part and one fractional digit of the value
  rounded to tenths. \<open>str\<close> of a float that \<open>round(x, 1)\<close> returned prints the same text.
\<close>

fun format_1f :: "pyfloat \<Rightarrow> string" where
  "format_1f (PyFloat s m) =
     (let t = tenths (PyFloat s m) in
      (if s then [CHR ''-''] else []) @ str_nat (t div 10) @ [CHR ''.'', digit_char (t mod 10)])"

section \<open>Uptime and the internal temperature\<close>

text \<open>\<open>CalcUptime\<close> (lines 163 to 168); \<open>divmod\<close> on integers is floor division, as \<open>div\<close> and \<open>mod\<close> on \<open>int\<close>.\<close>

definition CalcUptime :: "int \<Rightarrow> int \<Rightarrow> string" where
  "CalcUptime boot_time t =
     (let timeDiff = t - boot_time;
          minutes = timeDiff div 60; seconds = timeDiff mod 60;
          hours = minutes div 60; minutes' = minutes mod 60;
          days = hours div 24; hours' = hours mod 24
      in str_int days @ '':'' @ pad2 hours' @ '':'' @ pad2 minutes' @ '':'' @ pad2 seconds)"

text \<open>\<open>ReadTemperature\<close> (lines 49 to 53); the parameter is the value \<open>sensor.read_u16()\<close> returned.\<close>

definition ReadTemperature :: "nat \<Rightarrow> pyfloat" where
  "ReadTemperature adc_value =
     (let volt = (33 / 10 / 65535) * of_nat adc_value;
          temperature = 27 - (volt - 706 / 1000) / (1721 / 1000000)
      in py_round1 (float_of_rat temperature))"

section \<open>Configuration, boot state and the environment\<close>

text \<open>
  The fields of the configuration module the modelled code reads. Identity fields are
  held as the text an f-string renders for them.
\<close>

record config =
  MQTT_CLIENT_ID :: string
  DEVICE_TYPE :: string
  VERSION :: string
  MQTT_PUBLISH_TOPIC :: string
  PUBLISH_INTERVAL :: int
  SENSOR_IN_USE :: bool
  LOG_LEVEL :: int

text \<open>What the script computed before the main loop (lines 27, 109, 110).\<close>

record boot =
  boot_time :: int
  mac_address :: string
  ip_address :: string

text \<open>
  The outcome of every call into a collaborator. In \<open>sensor_out\<close>, \<open>clock\<close>, \<open>adc\<close>,
  \<open>publish_out\<close> and \<open>probe_out\<close> the first index is the iteration of the main loop; the
  second index of \<open>adc\<close> and \<open>publish_out\<close> is the call within the iteration (0 or 1), that
  of \<open>probe_out\<close> is the tick.
\<close>

record world =
  connect_out :: outcome
  sensor_init_out :: outcome
  sensor_out :: "nat \<Rightarrow> exn + pyfloat \<times> pyfloat"
  clock :: "nat \<Rightarrow> int"
  adc :: "nat \<Rightarrow> nat \<Rightarrow> nat"
  publish_out :: "nat \<Rightarrow> nat \<Rightarrow> outcome"
  probe_out :: "nat \<Rightarrow> nat \<Rightarrow> outcome"
  disconnect_out :: outcome

section \<open>Publishing\<close>

definition dq :: char where
  "dq = CHR 0x22"

definition quoted :: "string \<Rightarrow> string" where
  "quoted s = dq # s @ [dq]"

text \<open>The text \<open>m\<close> of line 152.\<close>

definition format_message :: "config \<Rightarrow> string \<Rightarrow> string \<Rightarrow> string" where
  "format_message cfg category message =
     category @ '',deviceId='' @ MQTT_CLIENT_ID cfg @ '',deviceType='' @ DEVICE_TYPE cfg
       @ '',deviceVersion='' @ VERSION cfg @ '' '' @ message"

text \<open>
  \<open>mqtt_publish\<close> (lines 149 to 160). The parameter \<open>topic\<close> is not used by the body, which
  publishes on \<open>config.MQTT_PUBLISH_TOPIC\<close>. When the publish call raises an \<open>Exception\<close>,
  the handler calls \<open>sys.exit()\<close>, which raises \<open>SystemExit\<close>.
\<close>

definition mqtt_publish :: "config \<Rightarrow> string \<Rightarrow> string \<Rightarrow> string \<Rightarrow> outcome \<Rightarrow> stmt" where
  "mqtt_publish cfg topic category message out =
     (let m = format_message cfg category message in
      case out of
        None \<Rightarrow> ([EPublish (MQTT_PUBLISH_TOPIC cfg) m], None)
      | Some e \<Rightarrow> (if is_Exception e then ([EPublish (MQTT_PUBLISH_TOPIC cfg) m, EExit], Some SystemExit)
                  else ([EPublish (MQTT_PUBLISH_TOPIC cfg) m], Some e)))"

text \<open>The field sets of lines 190 and 202.\<close>

definition telemetry_message :: "boot \<Rightarrow> int \<Rightarrow> nat \<Rightarrow> string" where
  "telemetry_message b t adc_value =
     ''uptime='' @ quoted (CalcUptime (boot_time b) t)
       @ '',internal_temperature='' @ format_1f (ReadTemperature adc_value)
       @ '',MAC_address='' @ quoted (mac_address b)
       @ '',IP_address='' @ quoted (ip_address b)"

definition measurement_message :: "pyfloat \<Rightarrow> pyfloat \<Rightarrow> string" where
  "measurement_message temp_C humidity =
     ''temperature='' @ format_1f temp_C @ '',humidity='' @ format_1f humidity"

section \<open>The main loop\<close>

text \<open>Lines 176 to 184: the readings of the sensor, or the simulated ones.\<close>

definition measurements :: "config \<Rightarrow> exn + pyfloat \<times> pyfloat \<Rightarrow> event list \<times> (exn + pyfloat \<times> pyfloat)" where
  "measurements cfg s =
     (if SENSOR_IN_USE cfg then ([ESensorRead], s)
      else ([], Inr (PyFloat False 21, PyFloat False 50)))"

text \<open>
  One iteration of \<open>while True\<close> (lines 174 to 218), the iteration number \<open>c\<close>. The ADC is
  read on line 188 and again on line 190; the text of line 188 is not used.
\<close>

definition cycle :: "config \<Rightarrow> boot \<Rightarrow> world \<Rightarrow> nat \<Rightarrow> stmt" where
  "cycle cfg b w c =
     (case measurements cfg (sensor_out w c) of
        (es, Inl e) \<Rightarrow> (es, Some e)
      | (es, Inr (temp_C, humidity)) \<Rightarrow>
          seq (es, None)
         (seq (mqtt_publish cfg (MQTT_PUBLISH_TOPIC cfg) ''telemetry''
                 (telemetry_message b (clock w c) (adc w c 1)) (publish_out w c 0))
         (seq (mqtt_publish cfg (MQTT_PUBLISH_TOPIC cfg) ''measurement''
                 (measurement_message temp_C humidity) (publish_out w c 1))
              (waiting (PUBLISH_INTERVAL cfg) (probe_out w c)))))"

text \<open>
  \<open>while True\<close> leaves only by an exception. \<open>main_loop cfg b w c k\<close> runs at most \<open>k\<close>
  iterations from iteration \<open>c\<close> on; the result \<open>None\<close> says the loop is still running.
\<close>

fun main_loop :: "config \<Rightarrow> boot \<Rightarrow> world \<Rightarrow> nat \<Rightarrow> nat \<Rightarrow> stmt" where
  "main_loop cfg b w c 0 = ([], None)"
| "main_loop cfg b w c (Suc k) = seq (cycle cfg b w c) (main_loop cfg b w (Suc c) k)"

text \<open>
  How a run ends: still in the main loop, in \<open>machine.reset()\<close> (which does not return),
  or dead by an exception nothing caught.
\<close>

datatype status = Running | Resetting | Died exn

text \<open>
  The \<open>try\<close> statement of lines 171 to 224. Whether the handler of line 220 catches the
  exception or not, the \<open>finally\<close> block runs: \<open>disconnect()\<close>, then \<open>machine.reset()\<close>
  if \<open>disconnect()\<close> returned.
\<close>

definition finally_block :: "outcome \<Rightarrow> event list \<times> status" where
  "finally_block d = (case d of None \<Rightarrow> ([EDisconnect, EReset], Resetting)
                              | Some e \<Rightarrow> ([EDisconnect], Died e))"

definition supervise :: "config \<Rightarrow> boot \<Rightarrow> world \<Rightarrow> nat \<Rightarrow> event list \<times> status" where
  "supervise cfg b w fuel =
     (case main_loop cfg b w 0 fuel of
        (es, None) \<Rightarrow> (es, Running)
      | (es, Some e) \<Rightarrow> (case finally_block (disconnect_out w) of (fs, st) \<Rightarrow> (es @ fs, st)))"

text \<open>
  The script from line 121 on: arm the watchdog, connect to the broker (a failure is
  caught by the bare \<open>except:\<close> of line 137, which resets), create the sensor driver when
  one is in use (lines 145 and 146, outside any \<open>try\<close>), then the supervised main loop.
\<close>

definition program :: "config \<Rightarrow> boot \<Rightarrow> world \<Rightarrow> nat \<Rightarrow> event list \<times> status" where
  "program cfg b w fuel =
     (case connect_out w of
        Some e \<Rightarrow> ([EArm 5000, EConnect, EReset], Resetting)
      | None \<Rightarrow>
          (if SENSOR_IN_USE cfg then
             (case sensor_init_out w of
                Some e \<Rightarrow> ([EArm 5000, EConnect, ESensorInit], Died e)
              | None \<Rightarrow> (case supervise cfg b w fuel of
                          (es, st) \<Rightarrow> ([EArm 5000, EConnect, ESensorInit] @ es, st)))
           else (case supervise cfg b w fuel of (es, st) \<Rightarrow> ([EArm 5000, EConnect] @ es, st))))"

section \<open>Observations on traces\<close>

definition is_tick_event :: "event \<Rightarrow> bool" where
  "is_tick_event ev = (ev = ESleep \<or> ev = EFeed \<or> ev = EProbe Reachable \<or> ev = EProbe Unreachable)"

definition feeds :: "event list \<Rightarrow> nat" where
  "feeds es = count_list es EFeed"

definition resets :: "event list \<Rightarrow> nat" where
  "resets es = count_list es EReset"

text \<open>The texts handed to \<open>mqtt_client.publish\<close>, in order.\<close>

fun published :: "event list \<Rightarrow> string list" where
  "published [] = []"
| "published (EPublish t m # es) = m # published es"
| "published (_ # es) = published es"

section \<open>Reading a measurement message back\<close>

text \<open>
  The reader the round-trip property of the specification speaks of: a number is an
  optional sign, decimal digits, a point and exactly one more digit; the field set of a
  measurement message is what follows the last space of the line.
\<close>

definition digit_val :: "char \<Rightarrow> nat option" where
  "digit_val c = (if c \<in> set ''0123456789'' then Some (of_char c - 48) else None)"

fun parse_digits :: "nat \<Rightarrow> string \<Rightarrow> nat option" where
  "parse_digits acc [] = Some acc"
| "parse_digits acc (c # cs) =
     (case digit_val c of None \<Rightarrow> None | Some d \<Rightarrow> parse_digits (acc * 10 + d) cs)"

definition parse_nat :: "string \<Rightarrow> nat option" where
  "parse_nat s = (if s = [] then None else parse_digits 0 s)"

definition parse_unsigned1 :: "string \<Rightarrow> nat option" where
  "parse_unsigned1 s =
     (let ip = takeWhile (\<lambda>c. c \<noteq> CHR ''.'') s;
          rest = dropWhile (\<lambda>c. c \<noteq> CHR ''.'') s
      in case rest of
           [p, d] \<Rightarrow> (case (parse_nat ip, digit_val d) of
                        (Some i, Some f) \<Rightarrow> Some (i * 10 + f)
                      | _ \<Rightarrow> None)
         | _ \<Rightarrow> None)"

definition parse_decimal1 :: "string \<Rightarrow> pyfloat option" where
  "parse_decimal1 s =
     (case s of
        [] \<Rightarrow> None
      | c # cs \<Rightarrow>
          (if c = CHR ''-'' then map_option (\<lambda>t. PyFloat True (of_nat t / 10)) (parse_unsigned1 cs)
           else map_option (\<lambda>t. PyFloat False (of_nat t / 10)) (parse_unsigned1 s)))"

fun strip_prefix :: "string \<Rightarrow> string \<Rightarrow> string option" where
  "strip_prefix [] s = Some s"
| "strip_prefix (p # ps) [] = None"
| "strip_prefix (p # ps) (c # cs) = (if p = c then strip_prefix ps cs else None)"

definition parse_fields :: "string \<Rightarrow> (pyfloat \<times> pyfloat) option" where
  "parse_fields s =
     (case strip_prefix ''temperature='' s of
        None \<Rightarrow> None
      | Some r \<Rightarrow>
          (case strip_prefix '',humidity='' (dropWhile (\<lambda>c. c \<noteq> CHR '','') r) of
             None \<Rightarrow> None
           | Some h \<Rightarrow>
               (case (parse_decimal1 (takeWhile (\<lambda>c. c \<noteq> CHR '','') r), parse_decimal1 h) of
                  (Some t, Some rh) \<Rightarrow> Some (t, rh)
                | _ \<Rightarrow> None)))"

definition parse_measurement :: "string \<Rightarrow> (pyfloat \<times> pyfloat) option" where
  "parse_measurement line =
     (case strip_prefix ''measurement,'' line of
        None \<Rightarrow> None
      | Some r \<Rightarrow> parse_fields (rev (takeWhile (\<lambda>c. c \<noteq> CHR '' '') (rev r))))"

section \<open>Example inputs\<close>

definition example_cfg :: config where
  "example_cfg = \<lparr>MQTT_CLIENT_ID = ''pico1'', DEVICE_TYPE = ''picow'', VERSION = ''1.4'',
     MQTT_PUBLISH_TOPIC = ''sensors'', PUBLISH_INTERVAL = 3, SENSOR_IN_USE = False, LOG_LEVEL = 1\<rparr>"

definition example_boot :: boot where
  "example_boot = \<lparr>boot_time = 0, mac_address = ''28cdc1000001'', ip_address = ''10.0.0.2''\<rparr>"

text \<open>Probe outcomes of a wait cycle: Reachable, then Unreachable twice; never reachable; a probe that raises an exception other than \<open>OSError\<close>.\<close>

definition probes_RUU :: "nat \<Rightarrow> outcome" where
  "probes_RUU i = (if i = 0 then None else Some OSError)"

definition health_RUU :: "nat \<Rightarrow> health" where
  "health_RUU i = (if i = 0 then Reachable else Unreachable)"

definition probes_unreachable :: "nat \<Rightarrow> outcome" where
  "probes_unreachable i = Some OSError"

definition probes_other :: "nat \<Rightarrow> outcome" where
  "probes_other i = Some OtherException"

definition all_reachable :: "nat \<Rightarrow> nat \<Rightarrow> outcome" where
  "all_reachable c i = None"

definition all_published :: "nat \<Rightarrow> nat \<Rightarrow> outcome" where
  "all_published c k = None"

definition publish_fails :: "nat \<Rightarrow> nat \<Rightarrow> outcome" where
  "publish_fails c k = Some OSError"

definition no_sensor :: "nat \<Rightarrow> exn + pyfloat \<times> pyfloat" where
  "no_sensor c = Inl OSError"

definition clock0 :: "nat \<Rightarrow> int" where
  "clock0 c = 75"

definition adc0 :: "nat \<Rightarrow> nat \<Rightarrow> nat" where
  "adc0 c k = 14000"

text \<open>A world where every call returns; one where the broker refuses the connection; one where every publish call and the disconnect call raise \<open>OSError\<close>.\<close>

definition world_ok :: world where
  "world_ok = \<lparr>connect_out = None, sensor_init_out = None, sensor_out = no_sensor,
     clock = clock0, adc = adc0, publish_out = all_published, probe_out = all_reachable,
     disconnect_out = None\<rparr>"

definition world_no_broker :: world where
  "world_no_broker = world_ok\<lparr>connect_out := Some OSError\<rparr>"

definition world_link_lost :: world where
  "world_link_lost = world_ok\<lparr>publish_out := publish_fails, disconnect_out := Some OSError\<rparr>"

section \<open>Facts about the wait loop\<close>

lemma watchdog_task_events:
  "fst (watchdog_task p) = EProbe (probe_health p) # (if probe_health p = Reachable then [EFeed] else [])"
  by (simp add: watchdog_task_def probe_health_def split: option.splits)

lemma watchdog_task_raises:
  "snd (watchdog_task p) = (case p of None \<Rightarrow> None | Some e \<Rightarrow> if e = OSError then None else Some e)"
  by (simp add: watchdog_task_def split: option.splits)

lemma wait_loop_stop: "\<not> interval < N \<Longrightarrow> wait_loop N probes interval = ([], None)"
  by (simp add: wait_loop.simps)

lemma wait_loop_raise:
  "interval < N \<Longrightarrow> watchdog_task (probes (nat interval)) = (es, Some e) \<Longrightarrow>
     wait_loop N probes interval = ([ESleep # es], Some e)"
  by (simp add: wait_loop.simps)

lemma wait_loop_step:
  "interval < N \<Longrightarrow> watchdog_task (probes (nat interval)) = (es, None) \<Longrightarrow>
     wait_loop N probes interval =
       ((ESleep # es) # fst (wait_loop N probes (interval + 1)), snd (wait_loop N probes (interval + 1)))"
  by (subst wait_loop.simps) (simp split: prod.splits)

lemma wait_loop_tick:
  "0 \<le> k \<Longrightarrow> i < length (fst (wait_loop N probes k)) \<Longrightarrow>
     fst (wait_loop N probes k) ! i = ESleep # fst (watchdog_task (probes (nat k + i)))"
proof (induction N probes k arbitrary: i rule: wait_loop.induct)
  case (1 N probes interval)
  show ?case
  proof (cases "interval < N")
    case False
    with "1.prems" show ?thesis by (simp add: wait_loop_stop)
  next
    case True
    obtain es r where wt: "watchdog_task (probes (nat interval)) = (es, r)"
      by (cases "watchdog_task (probes (nat interval))")
    show ?thesis
    proof (cases r)
      case (Some e)
      with True wt "1.prems" show ?thesis by (simp add: wait_loop_raise)
    next
      case None
      have unf: "wait_loop N probes interval =
          ((ESleep # es) # fst (wait_loop N probes (interval + 1)), snd (wait_loop N probes (interval + 1)))"
        using True wt None by (simp add: wait_loop_step)
      show ?thesis
      proof (cases i)
        case 0
        then show ?thesis using unf wt by simp
      next
        case (Suc j)
        have "j < length (fst (wait_loop N probes (interval + 1)))"
          using "1.prems"(2) unf Suc by simp
        moreover have "0 \<le> interval + 1" using "1.prems"(1) by simp
        ultimately have "fst (wait_loop N probes (interval + 1)) ! j
            = ESleep # fst (watchdog_task (probes (nat (interval + 1) + j)))"
          using "1.IH"[OF True wt[symmetric] None] by blast
        moreover have "nat (interval + 1) + j = nat interval + i"
          using "1.prems"(1) Suc by (simp add: nat_add_distrib)
        ultimately show ?thesis using unf Suc by simp
      qed
    qed
  qed
qed

lemma wait_loop_continues:
  "0 \<le> k \<Longrightarrow> i < length (fst (wait_loop N probes k)) \<Longrightarrow>
   snd (watchdog_task (probes (nat k + i))) = None \<Longrightarrow> k + int i + 1 < N \<Longrightarrow>
     i + 1 < length (fst (wait_loop N probes k))"
proof (induction N probes k arbitrary: i rule: wait_loop.induct)
  case (1 N probes interval)
  have lt: "interval < N" using "1.prems"(4) by simp
  obtain es r where wt: "watchdog_task (probes (nat interval)) = (es, r)"
    by (cases "watchdog_task (probes (nat interval))")
  show ?case
  proof (cases r)
    case (Some e)
    then have "fst (wait_loop N probes interval) = [ESleep # es]"
      using lt wt by (simp add: wait_loop_raise)
    then have "i = 0" using "1.prems"(2) by simp
    then show ?thesis using "1.prems"(3) wt Some by simp
  next
    case None
    have unf: "wait_loop N probes interval =
        ((ESleep # es) # fst (wait_loop N probes (interval + 1)), snd (wait_loop N probes (interval + 1)))"
      using lt wt None by (simp add: wait_loop_step)
    show ?thesis
    proof (cases i)
      case 0
      have lt': "interval + 1 < N" using "1.prems"(4) 0 by simp
      obtain es' r' where wt': "watchdog_task (probes (nat (interval + 1))) = (es', r')"
        by (cases "watchdog_task (probes (nat (interval + 1)))")
      have "fst (wait_loop N probes (interval + 1)) \<noteq> []"
        using lt' wt' by (cases r') (simp_all add: wait_loop_raise wait_loop_step)
      then show ?thesis using unf 0 by (simp add: Suc_less_eq2 neq_Nil_conv) 
    next
      case (Suc j)
      have a: "j < length (fst (wait_loop N probes (interval + 1)))"
        using "1.prems"(2) unf Suc by simp
      have b: "0 \<le> interval + 1" using "1.prems"(1) by simp
      have e: "nat (interval + 1) + j = nat interval + i"
        using "1.prems"(1) Suc by (simp add: nat_add_distrib)
      have c: "snd (watchdog_task (probes (nat (interval + 1) + j))) = None"
        using "1.prems"(3) e by simp
      have d: "interval + 1 + int j + 1 < N" using "1.prems"(4) Suc by simp
      have "j + 1 < length (fst (wait_loop N probes (interval + 1)))"
        using "1.IH"[OF lt wt[symmetric] None b a c d] .
      then show ?thesis using unf Suc by simp
    qed
  qed
qed

lemma wait_loop_health:
  "0 \<le> k \<Longrightarrow> wait_loop N (\<lambda>i. outcome_of (hs i)) k =
     (map (\<lambda>i. ESleep # fst (watchdog_task (outcome_of (hs i)))) [nat k ..< nat N], None)"
proof (induction "nat (N - k)" arbitrary: k)
  case 0
  then have "\<not> k < N" by simp
  then have "nat N \<le> nat k" by simp
  with \<open>\<not> k < N\<close> show ?case by (simp add: wait_loop_stop)
next
  case (Suc n)
  then have lt: "k < N" by simp
  have n: "n = nat (N - (k + 1))" using Suc.hyps(2) by simp
  have rec: "wait_loop N (\<lambda>i. outcome_of (hs i)) (k + 1) =
     (map (\<lambda>i. ESleep # fst (watchdog_task (outcome_of (hs i)))) [nat (k + 1) ..< nat N], None)"
    using Suc.hyps(1)[OF n] Suc.prems by simp
  have nr: "snd (watchdog_task (outcome_of (hs (nat k)))) = None"
    by (simp add: watchdog_task_def outcome_of_def split: health.splits)
  have up: "[nat k ..< nat N] = nat k # [nat (k + 1) ..< nat N]"
    using lt Suc.prems by (simp add: upt_conv_Cons nat_add_distrib)
  obtain es where wt: "watchdog_task (outcome_of (hs (nat k))) = (es, None)"
    using nr by (cases "watchdog_task (outcome_of (hs (nat k)))") simp
  show ?case
    using lt rec up wt by (simp add: wait_loop_step)
qed

lemma probe_health_outcome_of: "probe_health (outcome_of h) = h"
  by (cases h) (simp_all add: probe_health_def outcome_of_def)

lemma wait_loop_events:
  "ev \<in> set (concat (fst (wait_loop N probes k))) \<Longrightarrow> is_tick_event ev"
proof (induction N probes k rule: wait_loop.induct)
  case (1 N probes interval)
  show ?case
  proof (cases "interval < N")
    case False
    with "1.prems" show ?thesis by (simp add: wait_loop_stop)
  next
    case True
    obtain es r where wt: "watchdog_task (probes (nat interval)) = (es, r)"
      by (cases "watchdog_task (probes (nat interval))")
    have es: "\<forall>e \<in> set es. is_tick_event e"
      using watchdog_task_events[of "probes (nat interval)"] wt
      by (cases "probe_health (probes (nat interval))") (auto simp: is_tick_event_def)
    show ?thesis
    proof (cases r)
      case (Some e)
      with True wt "1.prems" es show ?thesis by (auto simp: wait_loop_raise is_tick_event_def)
    next
      case None
      have unf: "wait_loop N probes interval =
          ((ESleep # es) # fst (wait_loop N probes (interval + 1)), snd (wait_loop N probes (interval + 1)))"
        using True wt None by (simp add: wait_loop_step)
      from "1.prems" unf have "ev = ESleep \<or> ev \<in> set es \<or> ev \<in> set (concat (fst (wait_loop N probes (interval + 1))))"
        by auto
      then show ?thesis using es "1.IH"[OF True wt[symmetric] None] by (auto simp: is_tick_event_def)
    qed
  qed
qed

lemma published_append: "published (xs @ ys) = published xs @ published ys"
  by (induction xs rule: published.induct) simp_all

lemma published_tick_events: "\<forall>e \<in> set es. is_tick_event e \<Longrightarrow> published es = []"
  by (induction es rule: published.induct) (auto simp: is_tick_event_def)

lemma published_waiting: "published (fst (waiting N probes)) = []"
  unfolding waiting_def using wait_loop_events[of _ N probes 0]
  by (auto split: prod.splits intro!: published_tick_events)

lemma feeds_watchdog_task:
  "feeds (ESleep # fst (watchdog_task p)) = (if probe_health p = Reachable then 1 else 0)"
  by (simp add: watchdog_task_events feeds_def)

text \<open>
  Claim C1. On every tick the wait loop runs, the tick is a sleep, one probe and, exactly
  when that probe reported Reachable, one feed of the watchdog: the watchdog is fed on
  the tick if and only if the probe of the tick was Reachable, at most once per probe,
  and never on a tick whose probe was Unreachable. This holds for every outcome of the
  probes, also those that raise.
\<close>

theorem watchdog_fed_iff_reachable:
  assumes "i < length (fst (wait_loop N probes 0))"
  shows "fst (wait_loop N probes 0) ! i =
           ESleep # EProbe (probe_health (probes i)) #
             (if probe_health (probes i) = Reachable then [EFeed] else [])
       \<and> (EFeed \<in> set (fst (wait_loop N probes 0) ! i) \<longleftrightarrow> probe_health (probes i) = Reachable)
       \<and> feeds (fst (wait_loop N probes 0) ! i) \<le> 1
       \<and> (probe_health (probes i) = Unreachable \<longrightarrow> feeds (fst (wait_loop N probes 0) ! i) = 0)"
proof -
  have t: "fst (wait_loop N probes 0) ! i = ESleep # fst (watchdog_task (probes i))"
    using wait_loop_tick[of 0 i N probes] assms by simp
  show ?thesis
    unfolding t by (simp add: watchdog_task_events feeds_def)
qed

theorem watchdog_fed_iff_reachable_witness:
  "1 < length (fst (wait_loop 3 probes_RUU 0))
   \<and> fst (wait_loop 3 probes_RUU 0) ! 1 = [ESleep, EProbe Unreachable]
   \<and> EFeed \<notin> set (fst (wait_loop 3 probes_RUU 0) ! 1)
   \<and> feeds (fst (wait_loop 3 probes_RUU 0) ! 1) = 0
   \<and> probe_health (probes_RUU 1) = Unreachable"
proof -
  have h: "1 < length (fst (wait_loop 3 probes_RUU 0))"
    by (simp add: wait_loop.simps watchdog_task_def probes_RUU_def)
  have p: "probe_health (probes_RUU 1) = Unreachable"
    by (simp add: probe_health_def probes_RUU_def)
  show ?thesis
    using h p watchdog_fed_iff_reachable[OF h] by (simp add: feeds_def)
qed

text \<open>
  Claim C2. For every publish interval \<open>N \<ge> 1\<close> and every sequence of Reachable and
  Unreachable probe results, the wait loop runs exactly \<open>N\<close> ticks, each a sleep followed
  by one probe (and the feed when Reachable), and then returns normally, so that the main
  loop goes on to its next iteration. Unreachable results neither end the loop early nor
  skip a tick.
\<close>

theorem waiting_runs_N_ticks:
  assumes "1 \<le> N"
  shows "wait_loop N (\<lambda>i. outcome_of (hs i)) 0 =
           (map (\<lambda>i. ESleep # EProbe (hs i) # (if hs i = Reachable then [EFeed] else [])) [0 ..< nat N], None)
       \<and> int (length (fst (wait_loop N (\<lambda>i. outcome_of (hs i)) 0))) = N
       \<and> snd (waiting N (\<lambda>i. outcome_of (hs i))) = None"
proof -
  have w: "wait_loop N (\<lambda>i. outcome_of (hs i)) 0 =
           (map (\<lambda>i. ESleep # EProbe (hs i) # (if hs i = Reachable then [EFeed] else [])) [0 ..< nat N], None)"
    using wait_loop_health[of 0 N hs] by (simp add: watchdog_task_events probe_health_outcome_of)
  show ?thesis
    unfolding waiting_def w using assms by simp
qed

theorem waiting_runs_N_ticks_witness:
  "(1::int) \<le> 3
   \<and> wait_loop 3 (\<lambda>i. outcome_of (health_RUU i)) 0 =
       ([[ESleep, EProbe Reachable, EFeed], [ESleep, EProbe Unreachable], [ESleep, EProbe Unreachable]], None)
   \<and> int (length (fst (wait_loop 3 (\<lambda>i. outcome_of (health_RUU i)) 0))) = 3
   \<and> snd (waiting 3 (\<lambda>i. outcome_of (health_RUU i))) = None"
proof -
  have h: "(1::int) \<le> 3" by simp
  have u: "[0 ..< (3::nat)] = [0, 1, 2]" by code_simp
  show ?thesis
    using waiting_runs_N_ticks[OF h, of health_RUU] by (simp add: u health_RUU_def)
qed

text \<open>
  Claim C4, as stated, fails: line 72 catches \<open>OSError\<close> only. A probe that raises any
  other exception makes \<open>watchdog_task\<close> raise to its caller, and the wait loop ends at
  that tick.
\<close>

theorem probe_other_error_counterexample:
  "watchdog_task (Some OtherException) = ([EProbe Unreachable], Some OtherException)
   \<and> wait_loop 3 probes_other 0 = ([[ESleep, EProbe Unreachable]], Some OtherException)"
  by (simp add: wait_loop.simps watchdog_task_def probes_other_def)

text \<open>
  Claim C4, amended. When the probe of a tick fails with an \<open>OSError\<close> (the class of
  DNS failures, refused connections and timeouts), \<open>watchdog_task\<close> absorbs it and returns
  normally, the watchdog is not fed on that tick, and the wait loop goes on to the next
  tick if the interval has one.
\<close>

theorem probe_oserror_absorbed:
  assumes "probes i = Some OSError" and "i < length (fst (wait_loop N probes 0))"
  shows "watchdog_task (probes i) = ([EProbe Unreachable], None)
       \<and> feeds (fst (wait_loop N probes 0) ! i) = 0
       \<and> (int i + 1 < N \<longrightarrow> i + 1 < length (fst (wait_loop N probes 0)))"
proof -
  have a: "watchdog_task (probes i) = ([EProbe Unreachable], None)"
    using assms(1) by (simp add: watchdog_task_def)
  have t: "fst (wait_loop N probes 0) ! i = ESleep # fst (watchdog_task (probes i))"
    using wait_loop_tick[of 0 i N probes] assms(2) by simp
  have b: "feeds (fst (wait_loop N probes 0) ! i) = 0"
    unfolding t a by (simp add: feeds_def)
  have c: "int i + 1 < N \<Longrightarrow> i + 1 < length (fst (wait_loop N probes 0))"
    using wait_loop_continues[of 0 i N probes] assms(2) a by simp
  show ?thesis using a b c by blast
qed

theorem probe_oserror_absorbed_witness:
  "probes_RUU 1 = Some OSError \<and> 1 < length (fst (wait_loop 3 probes_RUU 0))
   \<and> watchdog_task (probes_RUU 1) = ([EProbe Unreachable], None)
   \<and> feeds (fst (wait_loop 3 probes_RUU 0) ! 1) = 0
   \<and> 2 < length (fst (wait_loop 3 probes_RUU 0))"
proof -
  have p: "probes_RUU 1 = Some OSError" by (simp add: probes_RUU_def)
  have h: "1 < length (fst (wait_loop 3 probes_RUU 0))"
    by (simp add: wait_loop.simps watchdog_task_def probes_RUU_def)
  show ?thesis
    using p h probe_oserror_absorbed[OF p h] by simp
qed

text \<open>
  Claim C5, as stated, fails: a tick whose probe reports Unreachable makes no feed.
\<close>

theorem feed_every_tick_counterexample:
  "wait_loop 1 probes_unreachable 0 = ([[ESleep, EProbe Unreachable]], None)
   \<and> feeds (fst (wait_loop 1 probes_unreachable 0) ! 0) = 0"
  by (simp add: wait_loop.simps watchdog_task_def probes_unreachable_def feeds_def)

text \<open>
  Claim C5, amended. On every tick of the wait cycle whose probe reports Reachable, at
  least one feed of the watchdog is made.
\<close>

theorem feed_on_reachable_tick:
  assumes "i < length (fst (wait_loop N probes 0))" and "probes i = None"
  shows "1 \<le> feeds (fst (wait_loop N probes 0) ! i)"
proof -
  have t: "fst (wait_loop N probes 0) ! i = ESleep # fst (watchdog_task (probes i))"
    using wait_loop_tick[of 0 i N probes] assms(1) by simp
  show ?thesis unfolding t using assms(2) by (simp add: watchdog_task_def feeds_def)
qed

theorem feed_on_reachable_tick_witness:
  "0 < length (fst (wait_loop 3 probes_RUU 0)) \<and> probes_RUU 0 = None
   \<and> 1 \<le> feeds (fst (wait_loop 3 probes_RUU 0) ! 0)"
proof -
  have h: "0 < length (fst (wait_loop 3 probes_RUU 0))"
    by (simp add: wait_loop.simps watchdog_task_def probes_RUU_def)
  have p: "probes_RUU 0 = None" by (simp add: probes_RUU_def)
  show ?thesis using h p feed_on_reachable_tick[OF h p] by simp
qed

section \<open>Facts about one iteration of the main loop\<close>

lemma fst_seq: "fst (seq a b) = fst a @ (if snd a = None then fst b else [])"
  by (cases a; cases b; cases "snd a") auto

lemma snd_seq: "snd (seq a b) = (if snd a = None then snd b else snd a)"
  by (cases a; cases b; cases "snd a") auto

lemma published_mqtt_publish:
  "published (fst (mqtt_publish cfg topic category message out)) = [format_message cfg category message]"
  by (simp add: mqtt_publish_def Let_def split: option.splits)

lemma snd_mqtt_publish:
  "snd (mqtt_publish cfg topic category message out) =
     (case out of None \<Rightarrow> None | Some e \<Rightarrow> if is_Exception e then Some SystemExit else Some e)"
  by (simp add: mqtt_publish_def Let_def split: option.splits)

lemma published_measurements: "published (fst (measurements cfg s)) = []"
  by (simp add: measurements_def)

lemma cycle_unfold:
  assumes "measurements cfg (sensor_out w c) = (es0, Inr (t, h))"
  shows "cycle cfg b w c =
     seq (es0, None)
    (seq (mqtt_publish cfg (MQTT_PUBLISH_TOPIC cfg) ''telemetry''
            (telemetry_message b (clock w c) (adc w c 1)) (publish_out w c 0))
    (seq (mqtt_publish cfg (MQTT_PUBLISH_TOPIC cfg) ''measurement''
            (measurement_message t h) (publish_out w c 1))
         (waiting (PUBLISH_INTERVAL cfg) (probe_out w c))))"
  using assms by (simp add: cycle_def)

lemma published_es0:
  assumes "measurements cfg (sensor_out w c) = (es0, r)"
  shows "published es0 = []"
  using published_measurements[of cfg "sensor_out w c"] assms by simp

text \<open>
  Claim C8. In an iteration of the main loop where the readings are obtained and both
  publish calls return, the iteration makes exactly two publish calls, the telemetry
  message first and the measurement message second, each by its own call of
  \<open>mqtt_client.publish\<close> on the configured topic, and both before the first tick of the
  wait loop.
\<close>

theorem two_publishes_in_order:
  assumes "measurements cfg (sensor_out w c) = (es0, Inr (t, h))"
      and "publish_out w c 0 = None" and "publish_out w c 1 = None"
  shows "fst (cycle cfg b w c) =
           es0 @ [EPublish (MQTT_PUBLISH_TOPIC cfg)
                    (format_message cfg ''telemetry'' (telemetry_message b (clock w c) (adc w c 1))),
                  EPublish (MQTT_PUBLISH_TOPIC cfg)
                    (format_message cfg ''measurement'' (measurement_message t h))]
               @ fst (waiting (PUBLISH_INTERVAL cfg) (probe_out w c))
       \<and> published (fst (cycle cfg b w c)) =
           [format_message cfg ''telemetry'' (telemetry_message b (clock w c) (adc w c 1)),
            format_message cfg ''measurement'' (measurement_message t h)]"
proof -
  have tr: "fst (cycle cfg b w c) =
           es0 @ [EPublish (MQTT_PUBLISH_TOPIC cfg)
                    (format_message cfg ''telemetry'' (telemetry_message b (clock w c) (adc w c 1))),
                  EPublish (MQTT_PUBLISH_TOPIC cfg)
                    (format_message cfg ''measurement'' (measurement_message t h))]
               @ fst (waiting (PUBLISH_INTERVAL cfg) (probe_out w c))"
    unfolding cycle_unfold[OF assms(1)] using assms(2,3)
    by (simp add: fst_seq snd_seq mqtt_publish_def)
  show ?thesis
    unfolding tr using published_es0[OF assms(1)]
    by (simp add: published_append published_waiting)
qed

theorem two_publishes_in_order_witness:
  "measurements example_cfg (sensor_out world_ok 0) = ([], Inr (PyFloat False 21, PyFloat False 50))
   \<and> publish_out world_ok 0 0 = None \<and> publish_out world_ok 0 1 = None
   \<and> published (fst (cycle example_cfg example_boot world_ok 0)) =
       [format_message example_cfg ''telemetry'' (telemetry_message example_boot 75 14000),
        format_message example_cfg ''measurement'' (measurement_message (PyFloat False 21) (PyFloat False 50))]"
proof -
  have m: "measurements example_cfg (sensor_out world_ok 0) = ([], Inr (PyFloat False 21, PyFloat False 50))"
    by (simp add: measurements_def example_cfg_def)
  have p0: "publish_out world_ok 0 0 = None" by (simp add: world_ok_def all_published_def)
  have p1: "publish_out world_ok 0 1 = None" by (simp add: world_ok_def all_published_def)
  have c: "clock world_ok 0 = 75" by (simp add: world_ok_def clock0_def)
  have a: "adc world_ok 0 1 = 14000" by (simp add: world_ok_def adc0_def)
  note t = two_publishes_in_order[OF m p0 p1, of example_boot, unfolded c a]
  show ?thesis using m p0 p1 t by blast
qed

text \<open>
  Claim C10. When \<open>SENSOR_IN_USE\<close> is false, in every iteration of the main loop that
  reaches the measurement publish (the telemetry publish returned), the field set of the
  measurement message is the constant text \<open>temperature=21.0,humidity=50.0\<close>, whatever
  the sensor hardware would have returned.
\<close>

theorem simulated_measurement_constant:
  assumes "\<not> SENSOR_IN_USE cfg" and "publish_out w c 0 = None"
  shows "published (fst (cycle cfg b w c)) =
           [format_message cfg ''telemetry'' (telemetry_message b (clock w c) (adc w c 1)),
            format_message cfg ''measurement'' ''temperature=21.0,humidity=50.0'']"
proof -
  have m: "measurements cfg (sensor_out w c) = ([], Inr (PyFloat False 21, PyFloat False 50))"
    using assms(1) by (simp add: measurements_def)
  have f: "measurement_message (PyFloat False 21) (PyFloat False 50) = ''temperature=21.0,humidity=50.0''"
    by (simp add: measurement_message_def round_half_even_def str_nat.simps digit_char_def)
  show ?thesis
    unfolding cycle_unfold[OF m] f using assms(2)
    by (simp add: fst_seq snd_seq published_append published_mqtt_publish snd_mqtt_publish published_waiting)
qed

theorem simulated_measurement_constant_witness:
  "\<not> SENSOR_IN_USE example_cfg \<and> publish_out world_ok 0 0 = None
   \<and> published (fst (cycle example_cfg example_boot world_ok 0)) =
       [format_message example_cfg ''telemetry'' (telemetry_message example_boot 75 14000),
        format_message example_cfg ''measurement'' ''temperature=21.0,humidity=50.0'']"
proof -
  have s: "\<not> SENSOR_IN_USE example_cfg" by (simp add: example_cfg_def)
  have p0: "publish_out world_ok 0 0 = None" by (simp add: world_ok_def all_published_def)
  have c: "clock world_ok 0 = 75" by (simp add: world_ok_def clock0_def)
  have a: "adc world_ok 0 1 = 14000" by (simp add: world_ok_def adc0_def)
  note t = simulated_measurement_constant[OF s p0, of example_boot, unfolded c a]
  show ?thesis using s p0 t by blast
qed

text \<open>
  Claim C9. The text handed to \<open>mqtt_client.publish\<close> is a function of the category, the
  field set and the three identity fields of the configuration only: two calls of
  \<open>mqtt_publish\<close> that agree on these publish the same text, whatever the topic argument,
  the other configuration fields and the outcome of the publish call.
\<close>

theorem format_is_pure:
  assumes "MQTT_CLIENT_ID c1 = MQTT_CLIENT_ID c2" and "DEVICE_TYPE c1 = DEVICE_TYPE c2"
      and "VERSION c1 = VERSION c2"
  shows "published (fst (mqtt_publish c1 t1 category message o1)) =
         published (fst (mqtt_publish c2 t2 category message o2))"
  using assms by (simp add: published_mqtt_publish format_message_def)

theorem format_is_pure_witness:
  "MQTT_CLIENT_ID example_cfg = MQTT_CLIENT_ID (example_cfg\<lparr>MQTT_PUBLISH_TOPIC := ''other'', LOG_LEVEL := 3\<rparr>)
   \<and> DEVICE_TYPE example_cfg = DEVICE_TYPE (example_cfg\<lparr>MQTT_PUBLISH_TOPIC := ''other'', LOG_LEVEL := 3\<rparr>)
   \<and> VERSION example_cfg = VERSION (example_cfg\<lparr>MQTT_PUBLISH_TOPIC := ''other'', LOG_LEVEL := 3\<rparr>)
   \<and> published (fst (mqtt_publish example_cfg ''sensors'' ''measurement'' ''temperature=21.0,humidity=50.0'' None)) =
     published (fst (mqtt_publish (example_cfg\<lparr>MQTT_PUBLISH_TOPIC := ''other'', LOG_LEVEL := 3\<rparr>) ''t2''
        ''measurement'' ''temperature=21.0,humidity=50.0'' (Some OSError)))"
proof -
  have a: "MQTT_CLIENT_ID example_cfg = MQTT_CLIENT_ID (example_cfg\<lparr>MQTT_PUBLISH_TOPIC := ''other'', LOG_LEVEL := 3\<rparr>)"
    by simp
  have b: "DEVICE_TYPE example_cfg = DEVICE_TYPE (example_cfg\<lparr>MQTT_PUBLISH_TOPIC := ''other'', LOG_LEVEL := 3\<rparr>)"
    by simp
  have c: "VERSION example_cfg = VERSION (example_cfg\<lparr>MQTT_PUBLISH_TOPIC := ''other'', LOG_LEVEL := 3\<rparr>)"
    by simp
  show ?thesis
    using a b c format_is_pure[OF a b c, of "''sensors''" "''measurement''" "''temperature=21.0,humidity=50.0''" None "''t2''" "Some OSError"]
    by blast
qed

text \<open>
  Claim C6. If the connect call to the broker fails at boot, whatever the exception, the
  program calls \<open>machine.reset()\<close> exactly once and ends there; no publish call is made.
\<close>

theorem connect_failure_resets:
  assumes "connect_out w = Some e"
  shows "program cfg b w fuel = ([EArm 5000, EConnect, EReset], Resetting)
       \<and> resets (fst (program cfg b w fuel)) = 1
       \<and> published (fst (program cfg b w fuel)) = []"
  using assms by (simp add: program_def resets_def)

theorem connect_failure_resets_witness:
  "connect_out world_no_broker = Some OSError
   \<and> program example_cfg example_boot world_no_broker 5 = ([EArm 5000, EConnect, EReset], Resetting)
   \<and> resets (fst (program example_cfg example_boot world_no_broker 5)) = 1
   \<and> published (fst (program example_cfg example_boot world_no_broker 5)) = []"
proof -
  have h: "connect_out world_no_broker = Some OSError" by (simp add: world_no_broker_def)
  show ?thesis using h connect_failure_resets[OF h, of example_cfg example_boot 5] by blast
qed

section \<open>Publish failures and the \<open>finally\<close> block\<close>

lemma cycle_telemetry_publish_fails:
  assumes "measurements cfg (sensor_out w c) = (es0, Inr (t, h))"
      and "publish_out w c 0 = Some e" and "is_Exception e"
  shows "cycle cfg b w c =
           (es0 @ [EPublish (MQTT_PUBLISH_TOPIC cfg)
                     (format_message cfg ''telemetry'' (telemetry_message b (clock w c) (adc w c 1))),
                   EExit], Some SystemExit)"
  unfolding cycle_unfold[OF assms(1)] using assms(2,3) by (simp add: mqtt_publish_def)

lemma cycle_measurement_publish_fails:
  assumes "measurements cfg (sensor_out w c) = (es0, Inr (t, h))"
      and "publish_out w c 0 = None" and "publish_out w c 1 = Some e" and "is_Exception e"
  shows "cycle cfg b w c =
           (es0 @ [EPublish (MQTT_PUBLISH_TOPIC cfg)
                     (format_message cfg ''telemetry'' (telemetry_message b (clock w c) (adc w c 1))),
                   EPublish (MQTT_PUBLISH_TOPIC cfg)
                     (format_message cfg ''measurement'' (measurement_message t h)),
                   EExit], Some SystemExit)"
  unfolding cycle_unfold[OF assms(1)] using assms(2,3,4) by (simp add: mqtt_publish_def)

lemma supervise_after_raise:
  assumes "main_loop cfg b w 0 fuel = (es, Some e)"
  shows "supervise cfg b w fuel =
           (case disconnect_out w of
              None \<Rightarrow> (es @ [EDisconnect, EReset], Resetting)
            | Some e' \<Rightarrow> (es @ [EDisconnect], Died e'))"
  using assms by (simp add: supervise_def finally_block_def split: option.splits)

lemma first_publish_fails_then_reset:
  assumes "connect_out w = None" and "\<not> SENSOR_IN_USE cfg"
      and "publish_out w 0 0 = Some e" and "is_Exception e" and "disconnect_out w = None"
  shows "program cfg b w (Suc k) =
           ([EArm 5000, EConnect,
             EPublish (MQTT_PUBLISH_TOPIC cfg)
               (format_message cfg ''telemetry'' (telemetry_message b (clock w 0) (adc w 0 1))),
             EExit, EDisconnect, EReset], Resetting)"
proof -
  have m: "measurements cfg (sensor_out w 0) = ([], Inr (PyFloat False 21, PyFloat False 50))"
    using assms(2) by (simp add: measurements_def)
  have ml: "main_loop cfg b w 0 (Suc k) =
      ([EPublish (MQTT_PUBLISH_TOPIC cfg)
               (format_message cfg ''telemetry'' (telemetry_message b (clock w 0) (adc w 0 1))),
             EExit], Some SystemExit)"
    using cycle_telemetry_publish_fails[OF m assms(3,4), of b] by simp
  show ?thesis
    using assms(1,2,5) by (simp add: program_def supervise_after_raise[OF ml])
qed

text \<open>
  Claim C3 at a failing input. The link to the broker is lost: the first publish call
  raises \<open>OSError\<close>, and so does the \<open>disconnect()\<close> of the \<open>finally\<close> block. No further
  publish and no tick follows the failing call, but \<open>machine.reset()\<close> is never called:
  the exception of \<open>disconnect()\<close> leaves the \<open>finally\<close> block before line 224.
\<close>

theorem publish_failure_without_reset:
  "program example_cfg example_boot world_link_lost 3 =
     ([EArm 5000, EConnect,
       EPublish ''sensors'' (format_message example_cfg ''telemetry'' (telemetry_message example_boot 75 14000)),
       EExit, EDisconnect], Died OSError)
   \<and> resets (fst (program example_cfg example_boot world_link_lost 3)) = 0"
proof -
  have m: "measurements example_cfg (sensor_out world_link_lost 0) = ([], Inr (PyFloat False 21, PyFloat False 50))"
    by (simp add: measurements_def example_cfg_def)
  have p: "publish_out world_link_lost 0 0 = Some OSError"
    by (simp add: world_link_lost_def publish_fails_def)
  have ml: "main_loop example_cfg example_boot world_link_lost 0 (Suc (Suc (Suc 0))) =
      ([EPublish (MQTT_PUBLISH_TOPIC example_cfg)
         (format_message example_cfg ''telemetry''
            (telemetry_message example_boot (clock world_link_lost 0) (adc world_link_lost 0 1))),
        EExit], Some SystemExit)"
    using cycle_telemetry_publish_fails[OF m p, of example_boot] by simp
  have w: "clock world_link_lost 0 = 75" "adc world_link_lost 0 1 = 14000"
          "connect_out world_link_lost = None" "disconnect_out world_link_lost = Some OSError"
    by (simp_all add: world_link_lost_def world_ok_def clock0_def adc0_def)
  have t: "MQTT_PUBLISH_TOPIC example_cfg = ''sensors''" "\<not> SENSOR_IN_USE example_cfg"
    by (simp_all add: example_cfg_def)
  have three: "(3::nat) = Suc (Suc (Suc 0))" by simp
  have pr: "program example_cfg example_boot world_link_lost 3 =
     ([EArm 5000, EConnect,
       EPublish ''sensors'' (format_message example_cfg ''telemetry'' (telemetry_message example_boot 75 14000)),
       EExit, EDisconnect], Died OSError)"
    unfolding three program_def supervise_after_raise[OF ml] w using t by simp
  show ?thesis unfolding pr by (simp add: resets_def)
qed

section \<open>Digits and decimal texts\<close>

lemma digit_cases:
  assumes "d < (10::nat)"
  shows "d = 0 \<or> d = 1 \<or> d = 2 \<or> d = 3 \<or> d = 4 \<or> d = 5 \<or> d = 6 \<or> d = 7 \<or> d = 8 \<or> d = 9"
  using assms by arith

lemma digit_val_digit_char: "d < 10 \<Longrightarrow> digit_val (digit_char d) = Some d"
  using digit_cases[of d] by (auto simp: digit_val_def digit_char_def)

lemma digit_char_in: "d < 10 \<Longrightarrow> digit_char d \<in> set ''0123456789''"
  using digit_cases[of d] by (auto simp: digit_char_def)

lemma str_nat_chars: "set (str_nat n) \<subseteq> set ''0123456789''"
proof (induction n rule: str_nat.induct)
  case (1 n)
  show ?case
  proof (cases "n < 10")
    case True
    then show ?thesis using digit_char_in[of n] by (subst str_nat.simps) simp
  next
    case False
    have "digit_char (n mod 10) \<in> set ''0123456789''" by (rule digit_char_in) simp
    then show ?thesis using 1[OF False] False by (subst str_nat.simps) simp
  qed
qed

lemma str_nat_not_Nil: "str_nat n \<noteq> []"
  by (subst str_nat.simps) simp

lemma parse_digits_append:
  "parse_digits acc (xs @ ys) =
     (case parse_digits acc xs of None \<Rightarrow> None | Some a \<Rightarrow> parse_digits a ys)"
  by (induction xs arbitrary: acc) (auto split: option.splits)

lemma parse_digits_str_nat:
  "parse_digits acc (str_nat n) = Some (acc * 10 ^ length (str_nat n) + n)"
proof (induction n arbitrary: acc rule: str_nat.induct)
  case (1 n)
  show ?case
  proof (cases "n < 10")
    case True
    then show ?thesis by (subst (1 2) str_nat.simps) (simp add: digit_val_digit_char)
  next
    case False
    have s: "str_nat n = str_nat (n div 10) @ [digit_char (n mod 10)]"
      using False by (subst str_nat.simps) simp
    have d: "digit_val (digit_char (n mod 10)) = Some (n mod 10)"
      by (rule digit_val_digit_char) simp
    show ?thesis
      unfolding s by (simp add: parse_digits_append 1[OF False] d algebra_simps)
  qed
qed

lemma parse_nat_str_nat: "parse_nat (str_nat n) = Some n"
  by (simp add: parse_nat_def str_nat_not_Nil parse_digits_str_nat)

lemma takeWhile_until:
  "\<forall>x \<in> set xs. P x \<Longrightarrow> \<not> P y \<Longrightarrow> takeWhile P (xs @ y # ys) = xs"
  by (induction xs) auto

lemma dropWhile_until:
  "\<forall>x \<in> set xs. P x \<Longrightarrow> \<not> P y \<Longrightarrow> dropWhile P (xs @ y # ys) = y # ys"
  by (induction xs) auto

lemma parse_unsigned1_text:
  assumes "d < 10"
  shows "parse_unsigned1 (str_nat i @ [CHR ''.'', digit_char d]) = Some (i * 10 + d)"
proof -
  have nd: "\<forall>x \<in> set (str_nat i). x \<noteq> CHR ''.''"
    using str_nat_chars[of i] by auto
  have t: "takeWhile (\<lambda>c. c \<noteq> CHR ''.'') (str_nat i @ CHR ''.'' # [digit_char d]) = str_nat i"
    by (rule takeWhile_until) (use nd in auto)
  have r: "dropWhile (\<lambda>c. c \<noteq> CHR ''.'') (str_nat i @ CHR ''.'' # [digit_char d]) = [CHR ''.'', digit_char d]"
    by (rule dropWhile_until) (use nd in auto)
  show ?thesis
    using t r by (simp add: parse_unsigned1_def parse_nat_str_nat digit_val_digit_char[OF assms])
qed

lemma str_nat_no_minus: "str_nat n = c # cs \<Longrightarrow> c \<noteq> CHR ''-''"
  using str_nat_chars[of n] by auto

lemma parse_decimal1_format_1f:
  "parse_decimal1 (format_1f x) = Some (py_round1 x)"
proof (cases x)
  case (PyFloat s m)
  define t where "t = tenths (PyFloat s m)"
  have f: "format_1f (PyFloat s m) =
             (if s then [CHR ''-''] else []) @ str_nat (t div 10) @ [CHR ''.'', digit_char (t mod 10)]"
    by (simp add: t_def Let_def del: tenths.simps)
  have r: "py_round1 (PyFloat s m) = PyFloat s (of_nat t / 10)"
    by (simp add: t_def del: tenths.simps)
  have u: "parse_unsigned1 (str_nat (t div 10) @ [CHR ''.'', digit_char (t mod 10)]) = Some t"
    using parse_unsigned1_text[of "t mod 10" "t div 10"] by simp
  obtain c cs where cs: "str_nat (t div 10) = c # cs"
    using str_nat_not_Nil[of "t div 10"] by (cases "str_nat (t div 10)") auto
  have c: "c \<noteq> CHR ''-''" using str_nat_no_minus[OF cs] .
  show ?thesis
  proof (cases s)
    case True
    have "parse_decimal1 (CHR ''-'' # str_nat (t div 10) @ [CHR ''.'', digit_char (t mod 10)])
            = Some (PyFloat True (of_nat t / 10))"
      by (simp add: parse_decimal1_def u)
    then show ?thesis unfolding PyFloat f r using True by simp
  next
    case False
    have "parse_decimal1 (str_nat (t div 10) @ [CHR ''.'', digit_char (t mod 10)])
            = map_option (\<lambda>t. PyFloat False (of_nat t / 10))
                (parse_unsigned1 (str_nat (t div 10) @ [CHR ''.'', digit_char (t mod 10)]))"
      using c by (simp add: parse_decimal1_def cs)
    then show ?thesis unfolding PyFloat f r using False u by simp
  qed
qed

lemma format_1f_parts:
  assumes "x \<in> set (format_1f (PyFloat s m))"
  shows "x = CHR ''-'' \<or> x = CHR ''.'' \<or> x \<in> set (str_nat (tenths (PyFloat s m) div 10))
         \<or> x = digit_char (tenths (PyFloat s m) mod 10)"
  using assms by (cases s) (auto simp: Let_def simp del: tenths.simps)

lemma digits_in_alphabet: "set ''0123456789'' \<subseteq> set ''-.0123456789''"
  by (simp add: subset_iff)

lemma format_1f_chars: "set (format_1f x) \<subseteq> set ''-.0123456789''"
proof
  fix c assume c: "c \<in> set (format_1f x)"
  obtain s m where x: "x = PyFloat s m" by (cases x)
  have d: "digit_char (tenths (PyFloat s m) mod 10) \<in> set ''0123456789''"
    by (rule digit_char_in) simp
  consider "c = CHR ''-''" | "c = CHR ''.''" | "c \<in> set (str_nat (tenths (PyFloat s m) div 10))"
    | "c = digit_char (tenths (PyFloat s m) mod 10)"
    using format_1f_parts[of c s m] c x by blast
  then show "c \<in> set ''-.0123456789''"
  proof cases
    case 1 then show ?thesis by simp
  next
    case 2 then show ?thesis by simp
  next
    case 3 then show ?thesis
      using str_nat_chars[of "tenths (PyFloat s m) div 10"] digits_in_alphabet by blast
  next
    case 4 then show ?thesis using d digits_in_alphabet by blast
  qed
qed

lemma round_half_even_of_int: "round_half_even (of_int k) = k"
  by (simp add: round_half_even_def)

lemma tenths_py_round1: "tenths (py_round1 x) = tenths x"
proof (cases x)
  case (PyFloat s m)
  have "\<bar>(of_nat (tenths (PyFloat s m)) :: rat) / 10\<bar> * 10 = of_int (int (tenths (PyFloat s m)))"
    by simp
  then have "round_half_even (\<bar>(of_nat (tenths (PyFloat s m)) :: rat) / 10\<bar> * 10) = int (tenths (PyFloat s m))"
    using round_half_even_of_int[of "int (tenths (PyFloat s m))"] by simp
  then show ?thesis unfolding PyFloat by simp
qed

lemma py_round1_idem: "py_round1 (py_round1 x) = py_round1 x"
proof (cases x)
  case (PyFloat s m)
  have "tenths (py_round1 (PyFloat s m)) = tenths (PyFloat s m)" by (rule tenths_py_round1)
  then show ?thesis unfolding PyFloat by simp
qed

lemma ReadTemperature_rounded: "py_round1 (ReadTemperature a) = ReadTemperature a"
  by (simp add: ReadTemperature_def Let_def py_round1_idem)

section \<open>Reading the measurement message back\<close>

lemma strip_prefix_append: "strip_prefix p (p @ r) = Some r"
  by (induction p) auto

lemma parse_fields_measurement_message:
  "parse_fields (measurement_message t h) = Some (py_round1 t, py_round1 h)"
proof -
  have nc: "\<forall>x \<in> set (format_1f t). x \<noteq> CHR '',''"
  proof
    fix x assume "x \<in> set (format_1f t)"
    then have "x \<in> set ''-.0123456789''" using format_1f_chars[of t] by blast
    then show "x \<noteq> CHR '',''" by auto
  qed
  have m: "measurement_message t h = ''temperature='' @ (format_1f t @ CHR '','' # (''humidity='' @ format_1f h))"
    by (simp add: measurement_message_def)
  have tk: "takeWhile (\<lambda>c. c \<noteq> CHR '','') (format_1f t @ CHR '','' # (''humidity='' @ format_1f h)) = format_1f t"
    by (rule takeWhile_until) (use nc in auto)
  have dr: "dropWhile (\<lambda>c. c \<noteq> CHR '','') (format_1f t @ CHR '','' # (''humidity='' @ format_1f h))
              = '',humidity='' @ format_1f h"
    using dropWhile_until[of "format_1f t" "\<lambda>c. c \<noteq> CHR '',''" "CHR '',''" "''humidity='' @ format_1f h"] nc
    by simp
  show ?thesis
    unfolding parse_fields_def m strip_prefix_append
    by (simp only: option.case tk dr strip_prefix_append parse_decimal1_format_1f prod.case)
qed

lemma format_1f_no_space: "CHR '' '' \<notin> set (format_1f x)"
proof
  assume "CHR '' '' \<in> set (format_1f x)"
  then have "CHR '' '' \<in> set ''-.0123456789''" using format_1f_chars[of x] by blast
  then show False by simp
qed

lemma measurement_message_no_space: "CHR '' '' \<notin> set (measurement_message t h)"
  by (simp add: measurement_message_def format_1f_no_space)

lemma after_last_space:
  assumes "CHR '' '' \<notin> set m"
  shows "rev (takeWhile (\<lambda>c. c \<noteq> CHR '' '') (rev (a @ CHR '' '' # m))) = m"
proof -
  have "takeWhile (\<lambda>c. c \<noteq> CHR '' '') (rev m @ CHR '' '' # rev a) = rev m"
    by (rule takeWhile_until) (use assms in auto)
  then show ?thesis by simp
qed

lemma parse_measurement_roundtrip:
  "parse_measurement (format_message cfg ''measurement'' (measurement_message t h))
     = Some (py_round1 t, py_round1 h)"
proof -
  define a where "a = ''deviceId='' @ MQTT_CLIENT_ID cfg @ '',deviceType='' @ DEVICE_TYPE cfg
       @ '',deviceVersion='' @ VERSION cfg"
  have f: "format_message cfg ''measurement'' (measurement_message t h)
             = ''measurement,'' @ (a @ CHR '' '' # measurement_message t h)"
    by (simp add: format_message_def a_def)
  show ?thesis
    unfolding parse_measurement_def f strip_prefix_append
    by (simp only: option.case after_last_space[OF measurement_message_no_space]
          parse_fields_measurement_message)
qed

section \<open>The format of the published messages\<close>

text \<open>
  Claim C7. The text of every published message is the category, the three identity
  fields and a space, followed by the field set. In the telemetry field set the uptime,
  the MAC address and the IP address stand between double quotes, and the internal
  temperature is a number with exactly one fractional digit (the reader of decimals with
  one fractional digit accepts it and returns the value). In the measurement field set
  both numbers have exactly one fractional digit, and reading a formatted measurement
  message back returns its temperature and humidity rounded to tenths.
\<close>

theorem message_format_roundtrip:
  "published (fst (mqtt_publish cfg topic category message out)) =
     [category @ '',deviceId='' @ MQTT_CLIENT_ID cfg @ '',deviceType='' @ DEVICE_TYPE cfg
        @ '',deviceVersion='' @ VERSION cfg @ '' '' @ message]
   \<and> telemetry_message b now a =
       ''uptime='' @ [CHR 0x22] @ CalcUptime (boot_time b) now @ [CHR 0x22]
         @ '',internal_temperature='' @ format_1f (ReadTemperature a)
         @ '',MAC_address='' @ [CHR 0x22] @ mac_address b @ [CHR 0x22]
         @ '',IP_address='' @ [CHR 0x22] @ ip_address b @ [CHR 0x22]
   \<and> parse_decimal1 (format_1f (ReadTemperature a)) = Some (ReadTemperature a)
   \<and> measurement_message t h = ''temperature='' @ format_1f t @ '',humidity='' @ format_1f h
   \<and> parse_decimal1 (format_1f t) = Some (py_round1 t)
   \<and> parse_decimal1 (format_1f h) = Some (py_round1 h)
   \<and> parse_measurement (format_message cfg ''measurement'' (measurement_message t h))
       = Some (py_round1 t, py_round1 h)"
proof -
  have p: "published (fst (mqtt_publish cfg topic category message out)) =
     [category @ '',deviceId='' @ MQTT_CLIENT_ID cfg @ '',deviceType='' @ DEVICE_TYPE cfg
        @ '',deviceVersion='' @ VERSION cfg @ '' '' @ message]"
    by (simp add: published_mqtt_publish format_message_def)
  have q: "telemetry_message b now a =
       ''uptime='' @ [CHR 0x22] @ CalcUptime (boot_time b) now @ [CHR 0x22]
         @ '',internal_temperature='' @ format_1f (ReadTemperature a)
         @ '',MAC_address='' @ [CHR 0x22] @ mac_address b @ [CHR 0x22]
         @ '',IP_address='' @ [CHR 0x22] @ ip_address b @ [CHR 0x22]"
    by (simp add: telemetry_message_def quoted_def dq_def)
  have r: "parse_decimal1 (format_1f (ReadTemperature a)) = Some (ReadTemperature a)"
    by (simp only: parse_decimal1_format_1f ReadTemperature_rounded)
  have m: "measurement_message t h = ''temperature='' @ format_1f t @ '',humidity='' @ format_1f h"
    by (simp add: measurement_message_def)
  show ?thesis
    using p q r m parse_decimal1_format_1f[of t] parse_decimal1_format_1f[of h]
      parse_measurement_roundtrip[of cfg t h]
    by blast
qed

theorem message_format_roundtrip_witness:
  "parse_measurement (format_message example_cfg ''measurement''
       (measurement_message (PyFloat False (2137 / 100)) (PyFloat False (1001 / 20))))
     = Some (PyFloat False (214 / 10), PyFloat False (500 / 10))
   \<and> measurement_message (PyFloat False (2137 / 100)) (PyFloat False (1001 / 20))
       = ''temperature=21.4,humidity=50.0''"
proof -
  have a: "py_round1 (PyFloat False (2137 / 100)) = PyFloat False (214 / 10)"
    by code_simp
  have b: "py_round1 (PyFloat False (1001 / 20)) = PyFloat False (500 / 10)"
    by code_simp
  have c: "measurement_message (PyFloat False (2137 / 100)) (PyFloat False (1001 / 20))
       = ''temperature=21.4,humidity=50.0''"
    by code_simp
  note r = message_format_roundtrip[of example_cfg "''t''" "''measurement''" "''m''" None
        example_boot 0 0 "PyFloat False (2137 / 100)" "PyFloat False (1001 / 20)", unfolded a b]
  show ?thesis using r c by blast
qed

section \<open>Scenarios of the specification\<close>

lemma scenario_all_reachable:
  "waiting 3 (all_reachable 0) =
     ([ESleep, EProbe Reachable, EFeed, ESleep, EProbe Reachable, EFeed,
       ESleep, EProbe Reachable, EFeed], None)
   \<and> feeds (fst (waiting 3 (all_reachable 0))) = 3"
  by (simp add: waiting_def wait_loop.simps watchdog_task_def all_reachable_def feeds_def)

lemma scenario_one_reachable:
  "waiting 3 probes_RUU =
     ([ESleep, EProbe Reachable, EFeed, ESleep, EProbe Unreachable,
       ESleep, EProbe Unreachable], None)
   \<and> feeds (fst (waiting 3 probes_RUU)) = 1"
  by (simp add: waiting_def wait_loop.simps watchdog_task_def probes_RUU_def feeds_def)

lemma uptime_example: "CalcUptime 0 93784 = ''1:02:03:04''"
  by code_simp

end
